theory Spec2Isabelle
  imports Main
begin

section \<open>The browser controller of the LCD screenshot generator (gui/js/main.js)\<close>

text \<open>
  The script is a handful of functions over browser state: the document, the global
  \<^verbatim>\<open>window.token\<close>, the pending timers, the requests handed to the network, the
  alerts shown and the lines written to the console. The embedding passes that state
  explicitly. A function returns its outcome (a thrown error or a value) together with
  the state it leaves behind, so that the effects made before a throw stay visible.
\<close>

subsection \<open>Values\<close>

text \<open>
  JavaScript values as far as the script handles them. Numbers are the integral ones;
  strings are Isabelle strings. An object value is its property list in insertion order
  with distinct keys.
\<close>

datatype jsval =
    JUndefined
  | JNull
  | JBool bool
  | JNum int
  | JStr string
  | JArr "jsval list"
  | JObj "(string \<times> jsval) list"

datatype error = TypeError | SyntaxError

type_synonym props = "(string \<times> jsval) list"

text \<open>\<^verbatim>\<open>obj[k] = v\<close>: an existing property keeps its position, a new one goes last.\<close>

fun set_prop :: "string \<Rightarrow> jsval \<Rightarrow> props \<Rightarrow> props" where
  "set_prop k v [] = [(k, v)]"
| "set_prop k v ((k', v') # ps) =
     (if k' = k then (k, v) # ps else (k', v') # set_prop k v ps)"

text \<open>\<^verbatim>\<open>obj[k]\<close> on a property list: a missing property reads as undefined.\<close>

definition get_prop :: "props \<Rightarrow> string \<Rightarrow> jsval" where
  "get_prop ps k = (case map_of ps k of None \<Rightarrow> JUndefined | Some v \<Rightarrow> v)"

subsection \<open>Decimal numerals and JSON text\<close>

fun show_nat :: "nat \<Rightarrow> string" where
  "show_nat n =
     (if n < 10 then [''0123456789'' ! n]
      else show_nat (n div 10) @ [''0123456789'' ! (n mod 10)])"

declare show_nat.simps [simp del]

definition show_int :: "int \<Rightarrow> string" where
  "show_int i = (if i < 0 then CHR ''-'' # show_nat (nat (- i)) else show_nat (nat i))"

text \<open>
  The escapes of \<^verbatim>\<open>JSON.stringify\<close> for one character: the quote, the backslash,
  the five short control escapes, and \<^verbatim>\<open>\u00XX\<close> for the other control characters.
\<close>

definition hex_digit :: "nat \<Rightarrow> char" where
  "hex_digit d = ''0123456789abcdef'' ! (d mod 16)"

definition escape_char :: "char \<Rightarrow> string" where
  "escape_char c =
     (if c = CHR 0x22 then [CHR 0x5C, CHR 0x22]
      else if c = CHR 0x5C then [CHR 0x5C, CHR 0x5C]
      else if c = CHR 0x08 then [CHR 0x5C, CHR ''b'']
      else if c = CHR 0x0C then [CHR 0x5C, CHR ''f'']
      else if c = CHR 0x0A then [CHR 0x5C, CHR ''n'']
      else if c = CHR 0x0D then [CHR 0x5C, CHR ''r'']
      else if c = CHR 0x09 then [CHR 0x5C, CHR ''t'']
      else if of_char c < (32 :: nat)
        then [CHR 0x5C, CHR ''u'', CHR ''0'', CHR ''0'',
              hex_digit (of_char c div 16), hex_digit (of_char c)]
      else [c])"

definition quote :: "string \<Rightarrow> string" where
  "quote s = CHR 0x22 # concat (map escape_char s) @ [CHR 0x22]"

fun join :: "string \<Rightarrow> string list \<Rightarrow> string" where
  "join sep [] = []"
| "join sep [x] = x"
| "join sep (x # y # ys) = x @ sep @ join sep (y # ys)"

text \<open>
  \<^verbatim>\<open>JSON.stringify\<close>. The result is \<open>None\<close> where JavaScript yields undefined: an
  undefined value has no JSON text, is left out of an object and reads \<^verbatim>\<open>null\<close> in
  an array.
\<close>

fun JSON_stringify :: "jsval \<Rightarrow> string option"
  and stringify_elems :: "jsval list \<Rightarrow> string list"
  and stringify_props :: "props \<Rightarrow> string list" where
  "JSON_stringify JUndefined = None"
| "JSON_stringify JNull = Some ''null''"
| "JSON_stringify (JBool b) = Some (if b then ''true'' else ''false'')"
| "JSON_stringify (JNum i) = Some (show_int i)"
| "JSON_stringify (JStr s) = Some (quote s)"
| "JSON_stringify (JArr xs) = Some (''['' @ join '','' (stringify_elems xs) @ '']'')"
| "JSON_stringify (JObj ps) = Some (''{'' @ join '','' (stringify_props ps) @ ''}'')"
| "stringify_elems [] = []"
| "stringify_elems (x # xs) =
     (case JSON_stringify x of None \<Rightarrow> ''null'' | Some t \<Rightarrow> t) # stringify_elems xs"
| "stringify_props [] = []"
| "stringify_props ((k, v) # ps) =
     (case JSON_stringify v of
        None \<Rightarrow> stringify_props ps
      | Some t \<Rightarrow> (quote k @ '':'' @ t) # stringify_props ps)"

subsection \<open>Browser state\<close>

text \<open>
  An element of the document: \<open>elem_value\<close> is its \<^verbatim>\<open>value\<close> property (\<open>None\<close>
  for an element that has none, where the property reads undefined), \<open>innerHTML\<close> the
  markup last assigned to it.
\<close>

record element =
  elem_value :: "string option"
  innerHTML :: string

text \<open>The transport object as a completion callback sees it through \<^verbatim>\<open>this\<close>.\<close>

record xhr =
  readyState :: nat
  status :: nat
  statusText :: string
  responseText :: string

text \<open>
  The two completion callbacks of the script: the function \<^verbatim>\<open>refreshLCDHandler\<close> and
  the anonymous function that \<^verbatim>\<open>saveScreenshot\<close> passes to \<^verbatim>\<open>doAjax\<close>.
\<close>

datatype handler = RefreshLCDHandler | SaveScreenshotHandler

text \<open>The only function ever passed to \<^verbatim>\<open>setTimeout\<close> is the closure of \<^verbatim>\<open>refreshLCD\<close>.\<close>

datatype callback = RefreshLCDTimeout

datatype transport = XMLHttpRequestObject | ActiveXObject

datatype elem_ref = Unassigned | NullRef | ElementRef string

text \<open>
  One request handed to the network: what \<^verbatim>\<open>open\<close>, \<^verbatim>\<open>setRequestHeader\<close>, the
  assignment to \<^verbatim>\<open>onreadystatechange\<close> and \<^verbatim>\<open>send\<close> were given.
\<close>

record request =
  req_transport :: transport
  req_method :: string
  req_url :: string
  req_async :: bool
  req_headers :: "(string \<times> string) list"
  onreadystatechange :: "handler option"
  req_body :: "string option"

type_synonym timer = "nat \<times> nat \<times> callback"

text \<open>
  The state a function of the script can read or change. \<open>heap\<close> holds the objects that
  are passed by reference (the \<^verbatim>\<open>data\<close> argument of \<^verbatim>\<open>doAjax\<close>); \<open>async\<close> and
  \<open>lcdContentElement\<close> are the globals the script creates by assigning to undeclared
  names; a timer is its handle, the time it is due and its callback.
\<close>

record state =
  document :: "string \<Rightarrow> element option"
  token :: jsval
  has_XMLHttpRequest :: bool
  has_ActiveXObject :: bool
  refreshLCDTimer :: "nat option"
  async :: jsval
  lcdContentElement :: elem_ref
  heap :: "nat \<Rightarrow> props option"
  next_addr :: nat
  timers :: "timer list"
  next_timer :: nat
  now :: nat
  requests :: "request list"
  alerts :: "string list"
  console_errors :: "string list"
  uncaught :: "error list"

definition alert :: "string \<Rightarrow> state \<Rightarrow> state" where
  "alert msg s = s\<lparr>alerts := alerts s @ [msg]\<rparr>"

definition console_error :: "string \<Rightarrow> state \<Rightarrow> state" where
  "console_error msg s = s\<lparr>console_errors := console_errors s @ [msg]\<rparr>"

text \<open>\<^verbatim>\<open>document.getElementById\<close>: the element, or null.\<close>

definition getElementById :: "string \<Rightarrow> state \<Rightarrow> element option" where
  "getElementById i s = document s i"

text \<open>An object literal: a fresh object on the heap.\<close>

definition new_object :: "props \<Rightarrow> state \<Rightarrow> nat \<times> state" where
  "new_object ps s =
     (next_addr s, s\<lparr>heap := (heap s)(next_addr s \<mapsto> ps), next_addr := next_addr s + 1\<rparr>)"

text \<open>The properties of the object at an address (a reference always has an object).\<close>

definition object_at :: "state \<Rightarrow> nat \<Rightarrow> props" where
  "object_at s a = (case heap s a of None \<Rightarrow> [] | Some ps \<Rightarrow> ps)"

subsection \<open>The transport: getHttpRequestObject and doAjax\<close>

definition getHttpRequestObject :: "state \<Rightarrow> transport option" where
  "getHttpRequestObject s =
     (if has_XMLHttpRequest s then Some XMLHttpRequestObject
      else if has_ActiveXObject s then Some ActiveXObject
      else None)"

text \<open>
  \<^verbatim>\<open>doAjax(url, method, responseHandler, data)\<close>. An argument that is omitted, undefined
  or null is \<open>None\<close>; \<open>url\<close> and \<open>method\<close> are strings otherwise, \<open>data\<close> a reference to
  an object. The function sets its variables first, the global \<^verbatim>\<open>async\<close> and the
  \<^verbatim>\<open>token\<close> property of \<open>data\<close> among them, and checks the url after that. It returns
  \<^verbatim>\<open>false\<close> for a blank url and nothing (undefined) on its other paths. The checks
  that the browser makes on the method and the url inside \<^verbatim>\<open>open\<close> are not modelled.
\<close>

definition doAjax ::
  "string option \<Rightarrow> string option \<Rightarrow> handler option \<Rightarrow> nat option \<Rightarrow> state
     \<Rightarrow> (error + jsval) \<times> state" where
  "doAjax url0 method0 responseHandler data0 s =
     (let url = (case url0 of None \<Rightarrow> [] | Some u \<Rightarrow> if u = [] then [] else u);
          method = (case method0 of None \<Rightarrow> ''GET''
                    | Some m \<Rightarrow> if m = [] then ''GET'' else m);
          s1 = s\<lparr>async := JBool True\<rparr>;
          (data, s2) = (case data0 of None \<Rightarrow> new_object [] s1 | Some a \<Rightarrow> (a, s1));
          s3 = s2\<lparr>heap := (heap s2)(data \<mapsto> set_prop ''token'' (token s2) (object_at s2 data))\<rparr>
      in if url = [] then (Inr (JBool False), alert ''URL can not be null/blank'' s3)
         else (case getHttpRequestObject s3 of
                 Some x \<Rightarrow>
                   (Inr JUndefined,
                    s3\<lparr>requests := requests s3 @
                       [\<lparr>req_transport = x, req_method = method, req_url = url,
                         req_async = True,
                         req_headers =
                           (if method = ''POST''
                            then [(''Content-Type'', ''application/json'')] else []),
                         onreadystatechange = responseHandler,
                         req_body = JSON_stringify (JObj (object_at s3 data))\<rparr>]\<rparr>)
               | None \<Rightarrow>
                   (Inr JUndefined, alert ''Please use browser with Ajax support.!'' s3)))"

subsection \<open>The response router\<close>

text \<open>
  String conversion of a value, as an assignment to \<^verbatim>\<open>innerHTML\<close> applies it: an
  array reads as its elements joined by commas (null and undefined elements as the empty
  string), an object as \<^verbatim>\<open>[object Object]\<close>; \<^verbatim>\<open>innerHTML\<close> itself takes null as the
  empty string.
\<close>

fun js_to_string :: "jsval \<Rightarrow> string"
  and elems_to_string :: "jsval list \<Rightarrow> string list" where
  "js_to_string JUndefined = ''undefined''"
| "js_to_string JNull = ''null''"
| "js_to_string (JBool b) = (if b then ''true'' else ''false'')"
| "js_to_string (JNum i) = show_int i"
| "js_to_string (JStr s) = s"
| "js_to_string (JArr xs) = join '','' (elems_to_string xs)"
| "js_to_string (JObj ps) = ''[object Object]''"
| "elems_to_string [] = []"
| "elems_to_string (x # xs) =
     (case x of JUndefined \<Rightarrow> [] | JNull \<Rightarrow> [] | _ \<Rightarrow> js_to_string x)
       # elems_to_string xs"

text \<open>
  An assignment to \<^verbatim>\<open>innerHTML\<close>. The browser parses the assigned markup into nodes,
  and \<^verbatim>\<open>innerHTML\<close> reads as the serialisation of those nodes, which need not be the
  text that was assigned. That function of the browser, from the markup assigned to the
  markup read back, is the parameter \<open>read_back\<close>; the field \<open>innerHTML\<close> of an element
  is what a read gives.
\<close>

definition set_innerHTML :: "(string \<Rightarrow> string) \<Rightarrow> jsval \<Rightarrow> element \<Rightarrow> element" where
  "set_innerHTML read_back v e =
     e\<lparr>innerHTML := read_back (case v of JNull \<Rightarrow> [] | _ \<Rightarrow> js_to_string v)\<rparr>"

text \<open>
  \<^verbatim>\<open>v.k\<close> for a key that is no built-in property: a TypeError on null and
  undefined, the property of an object, undefined on every other value.
\<close>

definition get_member :: "jsval \<Rightarrow> string \<Rightarrow> error + jsval" where
  "get_member v k =
     (case v of
        JUndefined \<Rightarrow> Inl TypeError
      | JNull \<Rightarrow> Inl TypeError
      | JObj ps \<Rightarrow> Inr (get_prop ps k)
      | _ \<Rightarrow> Inr JUndefined)"

definition lcd_id :: string where
  "lcd_id = ''lcd-screenshot-content''"

text \<open>
  \<^verbatim>\<open>refreshLCDHandler\<close>, with \<^verbatim>\<open>this\<close> as its first argument. \<^verbatim>\<open>JSON.parse\<close> is the
  browser's: the handler takes it as the parameter \<open>JSON_parse\<close>, \<open>None\<close> standing for
  the SyntaxError it throws on text that is not JSON. The browser's reading of assigned
  markup is the parameter \<open>read_back\<close>.
\<close>

definition refreshLCDHandler ::
  "(string \<Rightarrow> jsval option) \<Rightarrow> (string \<Rightarrow> string) \<Rightarrow> xhr \<Rightarrow> state
     \<Rightarrow> (error + unit) \<times> state" where
  "refreshLCDHandler JSON_parse read_back this s =
     (if readyState this \<noteq> 4 \<or> status this \<noteq> 200 then (Inr (), s)
      else if responseText this \<noteq> [] then
        (case JSON_parse (responseText this) of
           None \<Rightarrow> (Inl SyntaxError, s)
         | Some response \<Rightarrow>
             (case getElementById lcd_id s of
                None \<Rightarrow>
                  (Inr (),
                   console_error
                     (''Could not find element with id '' @ [CHR 0x27] @ lcd_id @ [CHR 0x27])
                     (s\<lparr>lcdContentElement := NullRef\<rparr>))
              | Some e \<Rightarrow>
                  (case get_member response ''result'' of
                     Inl err \<Rightarrow> (Inl err, s\<lparr>lcdContentElement := ElementRef lcd_id\<rparr>)
                   | Inr v \<Rightarrow>
                       (Inr (),
                        s\<lparr>lcdContentElement := ElementRef lcd_id,
                          document := (document s)(lcd_id \<mapsto> set_innerHTML read_back v e)\<rparr>))))
      else (Inr (), s))"

text \<open>The completion callback that \<^verbatim>\<open>saveScreenshot\<close> passes to \<^verbatim>\<open>doAjax\<close>.\<close>

definition saveScreenshotHandler :: "xhr \<Rightarrow> state \<Rightarrow> (error + unit) \<times> state" where
  "saveScreenshotHandler this s =
     (if readyState this \<noteq> 4 \<or> status this \<noteq> 200
      then (Inr (),
            alert (''Error saving screenshot '' @ show_nat (status this) @ '': ''
                     @ statusText this) s)
      else (Inr (), alert ''Screenshot saved successfully!'' s))"

text \<open>What the browser does on a \<^verbatim>\<open>readystatechange\<close> event of a request.\<close>

definition call_handler ::
  "(string \<Rightarrow> jsval option) \<Rightarrow> (string \<Rightarrow> string) \<Rightarrow> handler option \<Rightarrow> xhr \<Rightarrow> state
     \<Rightarrow> (error + unit) \<times> state" where
  "call_handler JSON_parse read_back h this s =
     (case h of
        None \<Rightarrow> (Inr (), s)
      | Some RefreshLCDHandler \<Rightarrow> refreshLCDHandler JSON_parse read_back this s
      | Some SaveScreenshotHandler \<Rightarrow> saveScreenshotHandler this s)"

text \<open>The result of a call whose value the caller drops.\<close>

definition discard :: "(error + 'a) \<times> state \<Rightarrow> (error + unit) \<times> state" where
  "discard r = (case fst r of Inl e \<Rightarrow> (Inl e, snd r) | Inr _ \<Rightarrow> (Inr (), snd r))"

text \<open>
  \<^verbatim>\<open>saveScreenshot\<close>. The arguments are evaluated before the call: reading
  \<^verbatim>\<open>innerHTML\<close> of a missing element throws before \<^verbatim>\<open>doAjax\<close> is entered.
\<close>

definition saveScreenshot :: "state \<Rightarrow> (error + unit) \<times> state" where
  "saveScreenshot s =
     (case getElementById lcd_id s of
        None \<Rightarrow> (Inl TypeError, s)
      | Some e \<Rightarrow>
          (let (a, s1) = new_object [(''svg-data'', JStr (innerHTML e))] s
           in discard (doAjax (Some ''/save/screenshot'') (Some ''POST'')
                         (Some SaveScreenshotHandler) (Some a) s1)))"

subsection \<open>The debounced refresh\<close>

text \<open>\<^verbatim>\<open>text.split("\n")\<close>: the pieces between line feeds, empty pieces kept.\<close>

fun split_lines :: "string \<Rightarrow> string list" where
  "split_lines [] = [[]]"
| "split_lines (c # cs) =
     (if c = CHR 0x0A then [] # split_lines cs
      else (case split_lines cs of
              [] \<Rightarrow> [[c]]
            | l # ls \<Rightarrow> (c # l) # ls))"

definition getTextInputAsLines :: "state \<Rightarrow> error + string list" where
  "getTextInputAsLines s =
     (case getElementById ''text-input'' s of
        None \<Rightarrow> Inl TypeError
      | Some e \<Rightarrow>
          (case elem_value e of
             None \<Rightarrow> Inl TypeError
           | Some text \<Rightarrow> Inr (split_lines text)))"

text \<open>The timer functions of the browser: handles are handed out in sequence.\<close>

definition setTimeout :: "callback \<Rightarrow> nat \<Rightarrow> state \<Rightarrow> nat \<times> state" where
  "setTimeout cb delay s =
     (next_timer s,
      s\<lparr>timers := timers s @ [(next_timer s, now s + delay, cb)],
        next_timer := next_timer s + 1\<rparr>)"

definition clearTimeout :: "nat \<Rightarrow> state \<Rightarrow> state" where
  "clearTimeout i s = s\<lparr>timers := filter (\<lambda>t. fst t \<noteq> i) (timers s)\<rparr>"

definition duration :: nat where
  "duration = 500"

text \<open>\<^verbatim>\<open>refreshLCD\<close>: a handle is truthy when it is not 0.\<close>

definition refreshLCD :: "state \<Rightarrow> state" where
  "refreshLCD s =
     (let s1 = (case refreshLCDTimer s of
                  None \<Rightarrow> s
                | Some i \<Rightarrow> if i \<noteq> 0 then clearTimeout i s else s);
          (i, s2) = setTimeout RefreshLCDTimeout duration s1
      in s2\<lparr>refreshLCDTimer := Some i\<rparr>)"

text \<open>The function that \<^verbatim>\<open>refreshLCD\<close> hands to \<^verbatim>\<open>setTimeout\<close>.\<close>

definition refreshLCD_timeout :: "state \<Rightarrow> (error + unit) \<times> state" where
  "refreshLCD_timeout s =
     (case getTextInputAsLines s of
        Inl e \<Rightarrow> (Inl e, s)
      | Inr lines \<Rightarrow>
          (let (a, s1) = new_object [(''input-data'', JArr (map JStr lines))] s
           in discard (doAjax (Some ''/refresh/lcd'') (Some ''POST'')
                         (Some RefreshLCDHandler) (Some a) s1)))"

subsection \<open>The event loop\<close>

text \<open>
  A timer callback runs to its end; an error it throws is reported and the loop goes on.
\<close>

definition fire :: "callback \<Rightarrow> state \<Rightarrow> state" where
  "fire cb s =
     (case cb of
        RefreshLCDTimeout \<Rightarrow>
          (case refreshLCD_timeout s of
             (Inl e, s') \<Rightarrow> s'\<lparr>uncaught := uncaught s' @ [e]\<rparr>
           | (Inr _, s') \<Rightarrow> s'))"

text \<open>The pending timer that is due first, no later than \<open>target\<close>; the older one on a tie.\<close>

fun earliest :: "nat \<Rightarrow> timer list \<Rightarrow> timer option" where
  "earliest target [] = None"
| "earliest target (t # ts) =
     (case earliest target ts of
        None \<Rightarrow> if fst (snd t) \<le> target then Some t else None
      | Some u \<Rightarrow> if fst (snd t) \<le> fst (snd u) then Some t else Some u)"

text \<open>Time passes up to \<open>target\<close>: the due timers fire in order, each at its time.\<close>

function run_timers :: "nat \<Rightarrow> state \<Rightarrow> state" where
  "run_timers target s =
     (case earliest target (timers s) of
        None \<Rightarrow> s\<lparr>now := max (now s) target\<rparr>
      | Some t \<Rightarrow>
          run_timers target
            (fire (snd (snd t))
               (s\<lparr>now := max (now s) (fst (snd t)),
                  timers := filter (\<lambda>u. fst u \<noteq> fst t) (timers s)\<rparr>)))"
  by pat_completeness auto

termination run_timers
proof (relation "measure (\<lambda>(target, s). length (timers s))")
  show "wf (measure (\<lambda>(target, s). length (timers s)))"
    by simp
next
  fix target and s :: state and t
  assume e: "earliest target (timers s) = Some t"
  have mem: "earliest target ts = Some t \<Longrightarrow> t \<in> set ts" for ts
    by (induction ts) (auto split: option.splits if_splits)
  have "t \<in> set (timers s)"
    using e by (rule mem)
  then have less: "length (filter (\<lambda>u. fst u \<noteq> fst t) (timers s)) < length (timers s)"
    by (intro length_filter_less[of t]) auto
  have ajax: "timers (snd (doAjax u m h d s')) = timers s'" for u m h d s'
    by (auto simp: doAjax_def Let_def alert_def new_object_def
        split: option.splits prod.splits)
  have "timers (fire cb s') = timers s'" for cb s'
    by (cases cb)
      (auto simp: fire_def refreshLCD_timeout_def discard_def new_object_def Let_def ajax
        split: sum.splits prod.splits)
  with less
  show "((target,
          fire (snd (snd t))
            (s\<lparr>now := max (now s) (fst (snd t)),
               timers := filter (\<lambda>u. fst u \<noteq> fst t) (timers s)\<rparr>)),
         (target, s)) \<in> measure (\<lambda>(target, s). length (timers s))"
    by simp
qed

declare run_timers.simps [simp del]

definition elapse :: "nat \<Rightarrow> state \<Rightarrow> state" where
  "elapse d s = run_timers (now s + d) s"

text \<open>The user edits the text field: its value becomes \<open>v\<close>.\<close>

definition set_text :: "string \<Rightarrow> state \<Rightarrow> state" where
  "set_text v s =
     (case document s ''text-input'' of
        None \<Rightarrow> s
      | Some e \<Rightarrow> s\<lparr>document := (document s)(''text-input'' \<mapsto> e\<lparr>elem_value := Some v\<rparr>)\<rparr>)"

text \<open>
  A run of input-change events: at each one the field holds \<open>v\<close>, the page calls
  \<^verbatim>\<open>refreshLCD\<close>, and \<open>gap\<close> milliseconds pass before the next event.
\<close>

fun input_events :: "(string \<times> nat) list \<Rightarrow> state \<Rightarrow> state" where
  "input_events [] s = s"
| "input_events ((v, gap) # evs) s = input_events evs (elapse gap (refreshLCD (set_text v s)))"

text \<open>The request that the refresh timer sends for the text \<open>v\<close>.\<close>

definition refresh_request :: "transport \<Rightarrow> jsval \<Rightarrow> string \<Rightarrow> request" where
  "refresh_request x tok v =
     \<lparr>req_transport = x, req_method = ''POST'', req_url = ''/refresh/lcd'',
      req_async = True, req_headers = [(''Content-Type'', ''application/json'')],
      onreadystatechange = Some RefreshLCDHandler,
      req_body = JSON_stringify
         (JObj [(''input-data'', JArr (map JStr (split_lines v))), (''token'', tok)])\<rparr>"

subsection \<open>A page to run the script on\<close>

definition example_page :: state where
  "example_page =
     \<lparr>document = [''text-input'' \<mapsto> \<lparr>elem_value = Some ''HELLO'', innerHTML = []\<rparr>,
                  ''lcd-screenshot-content'' \<mapsto>
                     \<lparr>elem_value = None, innerHTML = ''<svg>X</svg>''\<rparr>],
      token = JStr ''t'',
      has_XMLHttpRequest = True,
      has_ActiveXObject = False,
      refreshLCDTimer = None,
      async = JUndefined,
      lcdContentElement = Unassigned,
      heap = Map.empty,
      next_addr = 0,
      timers = [],
      next_timer = 1,
      now = 0,
      requests = [],
      alerts = [],
      console_errors = [],
      uncaught = []\<rparr>"

text \<open>The same page without the preview container.\<close>

definition page_without_preview :: state where
  "page_without_preview =
     example_page\<lparr>document :=
        [''text-input'' \<mapsto> \<lparr>elem_value = Some ''HELLO'', innerHTML = []\<rparr>]\<rparr>"

text \<open>The page holding one object that a caller is about to pass to \<^verbatim>\<open>doAjax\<close>.\<close>

definition page_with_object :: state where
  "page_with_object =
     example_page\<lparr>heap := [0 \<mapsto> [(''svg-data'', JStr ''<svg>X</svg>'')]], next_addr := 1\<rparr>"

text \<open>A refresh response, its JSON text, and a parser that reads that one text back.\<close>

definition example_response :: jsval where
  "example_response = JObj [(''result'', JStr ''<svg>HELLO</svg>'')]"

definition example_response_text :: string where
  "example_response_text =
     (case JSON_stringify example_response of None \<Rightarrow> [] | Some t \<Rightarrow> t)"

definition example_parse :: "string \<Rightarrow> jsval option" where
  "example_parse t = (if t = example_response_text then Some example_response else None)"

text \<open>
  A refresh response whose markup holds an empty element written with a self-closing
  tag, its JSON text and its parser.
\<close>

definition rect_response :: jsval where
  "rect_response = JObj [(''result'', JStr ''<svg><rect/></svg>'')]"

definition rect_response_text :: string where
  "rect_response_text =
     (case JSON_stringify rect_response of None \<Rightarrow> [] | Some t \<Rightarrow> t)"

definition rect_parse :: "string \<Rightarrow> jsval option" where
  "rect_parse t = (if t = rect_response_text then Some rect_response else None)"

text \<open>
  What the browser reads back for the markups used here: the element inside \<^verbatim>\<open>svg\<close>
  that was written with a self-closing tag is serialised with a start tag and an end
  tag; the other markups used here come back as they were assigned.
\<close>

definition example_read_back :: "string \<Rightarrow> string" where
  "example_read_back t =
     (if t = ''<svg><rect/></svg>'' then ''<svg><rect></rect></svg>'' else t)"

subsection \<open>Notions used in the statements\<close>

text \<open>The properties of the \<^verbatim>\<open>data\<close> argument as the caller passed it.\<close>

definition data_props :: "nat option \<Rightarrow> state \<Rightarrow> props" where
  "data_props data s = (case data of None \<Rightarrow> [] | Some a \<Rightarrow> object_at s a)"

text \<open>The request that \<^verbatim>\<open>doAjax\<close> sends for a url, a method argument and a body object.\<close>

definition sent_request ::
  "transport \<Rightarrow> string \<Rightarrow> string option \<Rightarrow> handler option \<Rightarrow> props \<Rightarrow> request" where
  "sent_request x u method responseHandler ps =
     \<lparr>req_transport = x,
      req_method = (case method of None \<Rightarrow> ''GET'' | Some m \<Rightarrow> if m = [] then ''GET'' else m),
      req_url = u, req_async = True,
      req_headers =
        (if (case method of None \<Rightarrow> ''GET'' | Some m \<Rightarrow> if m = [] then ''GET'' else m)
              = ''POST''
         then [(''Content-Type'', ''application/json'')] else []),
      onreadystatechange = responseHandler,
      req_body = JSON_stringify (JObj ps)\<rparr>"

text \<open>
  The invariant of the debounce: at most one timer is pending, and it is the one whose
  handle \<^verbatim>\<open>refreshLCDTimer\<close> holds; handles are never 0.
\<close>

definition debounce_inv :: "state \<Rightarrow> bool" where
  "debounce_inv s \<longleftrightarrow>
     (timers s = [] \<or>
      (\<exists>i d. timers s = [(i, d, RefreshLCDTimeout)] \<and> refreshLCDTimer s = Some i \<and> i \<noteq> 0))
     \<and> next_timer s \<noteq> 0"

section \<open>Properties\<close>

subsection \<open>Property lists, JSON text and lines\<close>

lemma map_of_set_prop_same: "map_of (set_prop k v ps) k = Some v"
  by (induction ps) auto

lemma map_of_set_prop_other: "k' \<noteq> k \<Longrightarrow> map_of (set_prop k v ps) k' = map_of ps k'"
  by (induction ps) auto

lemma join_member: "x \<in> set xs \<Longrightarrow> \<exists>a b. join sep xs = a @ x @ b"
proof (induction sep xs rule: join.induct)
  case (1 sep)
  then show ?case by simp
next
  case (2 sep y)
  then have "join sep [y] = [] @ x @ []" by simp
  then show ?case by blast
next
  case (3 sep y z zs)
  show ?case
  proof (cases "x = y")
    case True
    then have "join sep (y # z # zs) = [] @ x @ (sep @ join sep (z # zs))" by simp
    then show ?thesis by blast
  next
    case False
    with 3 obtain a b where "join sep (z # zs) = a @ x @ b" by auto
    then have "join sep (y # z # zs) = (y @ sep @ a) @ x @ b" by simp
    then show ?thesis by blast
  qed
qed

lemma stringify_props_member:
  "map_of ps k = Some v \<Longrightarrow> JSON_stringify v = Some t
   \<Longrightarrow> quote k @ '':'' @ t \<in> set (stringify_props ps)"
  by (induction ps) (auto split: option.splits if_splits)

text \<open>The JSON text of an object holds each property that has a JSON text.\<close>

lemma stringify_object_contains:
  assumes "map_of ps k = Some v" and "JSON_stringify v = Some t"
  shows "\<exists>a b. JSON_stringify (JObj ps) = Some (a @ quote k @ '':'' @ t @ b)"
proof -
  from join_member[OF stringify_props_member[OF assms], of "'',''"]
  obtain a b where "join '','' (stringify_props ps) = a @ (quote k @ '':'' @ t) @ b"
    by blast
  then have "JSON_stringify (JObj ps) = Some ((''{'' @ a) @ quote k @ '':'' @ t @ (b @ ''}''))"
    by simp
  then show ?thesis by blast
qed

lemma split_lines_nonempty: "split_lines t \<noteq> []"
  by (induction t) (auto split: list.splits)

text \<open>Splitting loses nothing: the lines joined by line feeds are the text again.\<close>

lemma join_split_lines: "join [CHR 0x0A] (split_lines t) = t"
proof (induction t)
  case Nil
  then show ?case by simp
next
  case (Cons c cs)
  obtain l ls where ls: "split_lines cs = l # ls"
    using split_lines_nonempty[of cs] by (cases "split_lines cs") auto
  show ?case
  proof (cases "c = CHR 0x0A")
    case True
    then show ?thesis using Cons ls by simp
  next
    case False
    then show ?thesis using Cons ls by (cases ls) auto
  qed
qed

lemma split_lines_no_newline: "l \<in> set (split_lines t) \<Longrightarrow> CHR 0x0A \<notin> set l"
  by (induction t arbitrary: l) (auto split: if_splits list.splits)

subsection \<open>The transport\<close>

lemma getHttpRequestObject_frame [simp]:
  "getHttpRequestObject (s\<lparr>async := a\<rparr>) = getHttpRequestObject s"
  "getHttpRequestObject (s\<lparr>heap := h\<rparr>) = getHttpRequestObject s"
  "getHttpRequestObject (s\<lparr>next_addr := n\<rparr>) = getHttpRequestObject s"
  "getHttpRequestObject (s\<lparr>document := d\<rparr>) = getHttpRequestObject s"
  "getHttpRequestObject (s\<lparr>timers := ts\<rparr>) = getHttpRequestObject s"
  "getHttpRequestObject (s\<lparr>next_timer := nt\<rparr>) = getHttpRequestObject s"
  "getHttpRequestObject (s\<lparr>refreshLCDTimer := r\<rparr>) = getHttpRequestObject s"
  "getHttpRequestObject (s\<lparr>now := t\<rparr>) = getHttpRequestObject s"
  by (simp_all add: getHttpRequestObject_def)

text \<open>What a call with a url and a transport does, as one equation.\<close>

lemma doAjax_sends:
  assumes "u \<noteq> []" and "getHttpRequestObject s = Some x"
  shows "doAjax (Some u) method responseHandler data s =
    (Inr JUndefined,
     s\<lparr>async := JBool True,
       heap := (case data of
                 None \<Rightarrow> (heap s)(next_addr s \<mapsto> [(''token'', token s)])
               | Some a \<Rightarrow> (heap s)(a \<mapsto> set_prop ''token'' (token s) (object_at s a))),
       next_addr := (case data of None \<Rightarrow> next_addr s + 1 | Some a \<Rightarrow> next_addr s),
       requests := requests s @
         [sent_request x u method responseHandler
            (set_prop ''token'' (token s) (data_props data s))]\<rparr>)"
proof (cases data)
  case None
  then show ?thesis
    using assms
    by (simp add: doAjax_def new_object_def object_at_def sent_request_def data_props_def Let_def)
next
  case (Some a)
  then show ?thesis
    using assms
    by (simp add: doAjax_def object_at_def sent_request_def data_props_def Let_def)
qed

text \<open>The two ways a call aborts, each as one equation.\<close>

lemma doAjax_blank:
  assumes "url = None \<or> url = Some []"
  shows "doAjax url method responseHandler data s =
    (Inr (JBool False),
     s\<lparr>async := JBool True,
       heap := (case data of
                 None \<Rightarrow> (heap s)(next_addr s \<mapsto> [(''token'', token s)])
               | Some a \<Rightarrow> (heap s)(a \<mapsto> set_prop ''token'' (token s) (object_at s a))),
       next_addr := (case data of None \<Rightarrow> next_addr s + 1 | Some a \<Rightarrow> next_addr s),
       alerts := alerts s @ [''URL can not be null/blank'']\<rparr>)"
proof (cases data)
  case None
  then show ?thesis
    using assms
    by (auto simp add: doAjax_def new_object_def object_at_def alert_def Let_def)
next
  case (Some a)
  then show ?thesis
    using assms
    by (auto simp add: doAjax_def object_at_def alert_def Let_def)
qed

lemma doAjax_no_transport:
  assumes "u \<noteq> []" and "getHttpRequestObject s = None"
  shows "doAjax (Some u) method responseHandler data s =
    (Inr JUndefined,
     s\<lparr>async := JBool True,
       heap := (case data of
                 None \<Rightarrow> (heap s)(next_addr s \<mapsto> [(''token'', token s)])
               | Some a \<Rightarrow> (heap s)(a \<mapsto> set_prop ''token'' (token s) (object_at s a))),
       next_addr := (case data of None \<Rightarrow> next_addr s + 1 | Some a \<Rightarrow> next_addr s),
       alerts := alerts s @ [''Please use browser with Ajax support.!'']\<rparr>)"
proof (cases data)
  case None
  then show ?thesis
    using assms
    by (simp add: doAjax_def new_object_def object_at_def alert_def Let_def)
next
  case (Some a)
  then show ?thesis
    using assms
    by (simp add: doAjax_def object_at_def alert_def Let_def)
qed

text \<open>
  Claim C3, as the code has it: a call of \<^verbatim>\<open>doAjax\<close> whose url is empty (omitted,
  undefined, null or the empty string) makes no network request, shows the alert of the
  configuration error and returns false. A url that is blank without being empty is not
  among them.
\<close>

theorem doAjax_blank_url:
  assumes "url = None \<or> url = Some []"
  shows "fst (doAjax url method responseHandler data s) = Inr (JBool False)
    \<and> requests (snd (doAjax url method responseHandler data s)) = requests s
    \<and> alerts (snd (doAjax url method responseHandler data s))
        = alerts s @ [''URL can not be null/blank'']"
  using assms
  by (auto simp: doAjax_def Let_def alert_def new_object_def split: option.splits prod.splits)

theorem doAjax_blank_url_witness:
  "(Some [] = (None :: string option) \<or> Some [] = Some ([] :: string))
    \<and> fst (doAjax (Some []) (Some ''POST'') None None example_page) = Inr (JBool False)
    \<and> requests (snd (doAjax (Some []) (Some ''POST'') None None example_page))
        = requests example_page
    \<and> alerts (snd (doAjax (Some []) (Some ''POST'') None None example_page))
        = alerts example_page @ [''URL can not be null/blank'']"
  using doAjax_blank_url [of "Some []" "Some ''POST''" None None example_page]
  by simp

text \<open>
  Claim C3 as stated fails: the url of the call below is blank, one space, and the call
  sends a request to it, shows no alert and returns undefined.
\<close>

theorem doAjax_blank_url_is_sent:
  "fst (doAjax (Some '' '') (Some ''POST'') None None example_page) = Inr JUndefined
   \<and> alerts (snd (doAjax (Some '' '') (Some ''POST'') None None example_page)) = []
   \<and> map req_url (requests (snd (doAjax (Some '' '') (Some ''POST'') None None example_page)))
       = ['' '']
   \<and> requests example_page = []"
proof -
  have x: "getHttpRequestObject example_page = Some XMLHttpRequestObject"
    by (simp add: getHttpRequestObject_def example_page_def)
  have "requests example_page = []" "alerts example_page = []"
    by (simp_all add: example_page_def)
  then show ?thesis
    by (simp add: doAjax_sends[OF _ x] sent_request_def)
qed

text \<open>
  The check is for the empty string only: a url of white space is sent like any other.
\<close>

lemma doAjax_whitespace_url_sends:
  assumes "getHttpRequestObject s = Some x"
  shows "requests (snd (doAjax (Some '' '') method responseHandler data s)) =
    requests s @ [sent_request x '' '' method responseHandler
                    (set_prop ''token'' (token s) (data_props data s))]"
  using assms by (simp add: doAjax_sends)

text \<open>
  Claim C4, as the code has it: a call of \<^verbatim>\<open>doAjax\<close> that aborts on a configuration
  error (blank url, or no transport) sends nothing and leaves the document, the timers
  and the token alone, but it is not free of effects: it shows one alert, sets the global
  \<^verbatim>\<open>async\<close> to true and sets the \<^verbatim>\<open>token\<close> property of the caller's data object
  (of a fresh object when the caller passed none).
\<close>

theorem doAjax_abort_effects:
  assumes "url = None \<or> url = Some [] \<or> getHttpRequestObject s = None"
  shows "snd (doAjax url method responseHandler data s) =
    s\<lparr>async := JBool True,
      heap := (case data of
                 None \<Rightarrow> (heap s)(next_addr s \<mapsto> [(''token'', token s)])
               | Some a \<Rightarrow> (heap s)(a \<mapsto> set_prop ''token'' (token s) (object_at s a))),
      next_addr := (case data of None \<Rightarrow> next_addr s + 1 | Some a \<Rightarrow> next_addr s),
      alerts := alerts s @
        [if url = None \<or> url = Some [] then ''URL can not be null/blank''
         else ''Please use browser with Ajax support.!'']\<rparr>"
proof (cases "url = None \<or> url = Some []")
  case True
  then show ?thesis
    by (simp add: doAjax_blank)
next
  case False
  then obtain u where "url = Some u" and "u \<noteq> []"
    by (cases url) auto
  moreover from False assms have "getHttpRequestObject s = None"
    by blast
  ultimately show ?thesis
    by (simp add: doAjax_no_transport)
qed

theorem doAjax_abort_effects_witness:
  "(Some [] = (None :: string option) \<or> Some [] = Some ([] :: string)
      \<or> getHttpRequestObject page_with_object = None)
   \<and> snd (doAjax (Some []) (Some ''POST'') None (Some 0) page_with_object) =
      page_with_object
        \<lparr>async := JBool True,
         heap := [0 \<mapsto> [(''svg-data'', JStr ''<svg>X</svg>''), (''token'', JStr ''t'')]],
         alerts := [''URL can not be null/blank'']\<rparr>"
  using doAjax_abort_effects [of "Some []" page_with_object "Some ''POST''" None "Some 0"]
  by (simp add: page_with_object_def example_page_def object_at_def)

text \<open>
  Claim C4 as stated fails: the call below aborts on its blank url, returns false and
  sends nothing, and the caller's data object has gained a \<^verbatim>\<open>token\<close> property.
\<close>

theorem doAjax_abort_mutates_data:
  "fst (doAjax (Some []) (Some ''POST'') None (Some 0) page_with_object) = Inr (JBool False)
   \<and> requests (snd (doAjax (Some []) (Some ''POST'') None (Some 0) page_with_object)) = []
   \<and> heap page_with_object 0 = Some [(''svg-data'', JStr ''<svg>X</svg>'')]
   \<and> heap (snd (doAjax (Some []) (Some ''POST'') None (Some 0) page_with_object)) 0
       = Some [(''svg-data'', JStr ''<svg>X</svg>''), (''token'', JStr ''t'')]"
  by (simp add: doAjax_def page_with_object_def example_page_def alert_def object_at_def)

text \<open>
  Claim C8: a call of \<^verbatim>\<open>doAjax\<close> that issues a request sends the JSON text of the
  caller's body with the \<^verbatim>\<open>token\<close> property set to the value \<^verbatim>\<open>window.token\<close> has
  at the call (the other properties as the caller gave them, and the token in the text
  whenever it has a JSON text); the method is GET when it is omitted; a POST carries the
  JSON content-type header.
\<close>

theorem doAjax_request:
  assumes "url = Some u" and "u \<noteq> []" and "getHttpRequestObject s = Some x"
  shows "\<exists>r ps. requests (snd (doAjax url method responseHandler data s)) = requests s @ [r]
    \<and> req_url r = u
    \<and> req_method r =
        (case method of None \<Rightarrow> ''GET'' | Some m \<Rightarrow> if m = [] then ''GET'' else m)
    \<and> (req_method r = ''POST'' \<longrightarrow>
          req_headers r = [(''Content-Type'', ''application/json'')])
    \<and> onreadystatechange r = responseHandler
    \<and> ps = set_prop ''token'' (token s) (data_props data s)
    \<and> req_body r = JSON_stringify (JObj ps)
    \<and> map_of ps ''token'' = Some (token s)
    \<and> (\<forall>k. k \<noteq> ''token'' \<longrightarrow> map_of ps k = map_of (data_props data s) k)
    \<and> (\<forall>t. JSON_stringify (token s) = Some t \<longrightarrow>
          (\<exists>a b. req_body r = Some (a @ quote ''token'' @ '':'' @ t @ b)))"
proof -
  let ?ps = "set_prop ''token'' (token s) (data_props data s)"
  let ?r = "sent_request x u method responseHandler ?ps"
  have "requests (snd (doAjax url method responseHandler data s)) = requests s @ [?r]"
    using assms by (simp add: doAjax_sends)
  moreover have "req_url ?r = u" "onreadystatechange ?r = responseHandler"
    "req_body ?r = JSON_stringify (JObj ?ps)"
    "req_method ?r =
       (case method of None \<Rightarrow> ''GET'' | Some m \<Rightarrow> if m = [] then ''GET'' else m)"
    "req_method ?r = ''POST'' \<longrightarrow> req_headers ?r = [(''Content-Type'', ''application/json'')]"
    by (simp_all add: sent_request_def)
  moreover have tok: "map_of ?ps ''token'' = Some (token s)"
    by (rule map_of_set_prop_same)
  moreover have "\<forall>k. k \<noteq> ''token'' \<longrightarrow> map_of ?ps k = map_of (data_props data s) k"
    by (simp add: map_of_set_prop_other)
  moreover have "\<forall>t. JSON_stringify (token s) = Some t \<longrightarrow>
      (\<exists>a b. req_body ?r = Some (a @ quote ''token'' @ '':'' @ t @ b))"
    using stringify_object_contains[OF tok] by (simp add: sent_request_def)
  ultimately show ?thesis
    by blast
qed

theorem doAjax_request_witness:
  "Some ''/init'' = Some ''/init'' \<and> ''/init'' \<noteq> []
   \<and> getHttpRequestObject page_with_object = Some XMLHttpRequestObject
   \<and> (\<exists>r ps. requests (snd (doAjax (Some ''/init'') None None (Some 0) page_with_object))
          = requests page_with_object @ [r]
      \<and> req_url r = ''/init''
      \<and> req_method r = ''GET''
      \<and> (req_method r = ''POST'' \<longrightarrow>
            req_headers r = [(''Content-Type'', ''application/json'')])
      \<and> onreadystatechange r = None
      \<and> ps = [(''svg-data'', JStr ''<svg>X</svg>''), (''token'', JStr ''t'')]
      \<and> req_body r = JSON_stringify (JObj ps)
      \<and> map_of ps ''token'' = Some (token page_with_object)
      \<and> (\<forall>k. k \<noteq> ''token'' \<longrightarrow>
            map_of ps k = map_of (data_props (Some 0) page_with_object) k)
      \<and> (\<forall>t. JSON_stringify (token page_with_object) = Some t \<longrightarrow>
            (\<exists>a b. req_body r = Some (a @ quote ''token'' @ '':'' @ t @ b))))"
proof -
  have x: "getHttpRequestObject page_with_object = Some XMLHttpRequestObject"
    by (simp add: getHttpRequestObject_def page_with_object_def example_page_def)
  have ps: "set_prop ''token'' (token page_with_object) (data_props (Some 0) page_with_object)
      = [(''svg-data'', JStr ''<svg>X</svg>''), (''token'', JStr ''t'')]"
    by (simp add: data_props_def object_at_def page_with_object_def example_page_def)
  show ?thesis
    using x doAjax_request [of "Some ''/init''" "''/init''" page_with_object
        XMLHttpRequestObject None None "Some 0"]
    by (simp add: ps)
qed

text \<open>The requests of the specification's scenarios, as the text on the wire.\<close>

lemma refresh_body_text:
  \<open>JSON_stringify (JObj [(''input-data'', JArr [JStr ''HELLO'']), (''token'', JStr ''t'')])
     = Some ''{"input-data":["HELLO"],"token":"t"}''\<close>
  by (simp add: quote_def escape_char_def)

lemma save_body_text:
  \<open>JSON_stringify (JObj [(''svg-data'', JStr ''<svg>X</svg>''), (''token'', JStr ''t'')])
     = Some ''{"svg-data":"<svg>X</svg>","token":"t"}''\<close>
  by (simp add: quote_def escape_char_def)

subsection \<open>The response router\<close>

text \<open>
  Claim C6: unless the transport is in ready state 4 with status 200, the refresh
  handler returns without any effect: the state it leaves is the state it found.
\<close>

theorem refreshLCDHandler_ignores_other_states:
  assumes "\<not> (readyState this = 4 \<and> status this = 200)"
  shows "refreshLCDHandler JSON_parse read_back this s = (Inr (), s)"
  using assms by (auto simp: refreshLCDHandler_def)

theorem refreshLCDHandler_ignores_other_states_witness:
  "\<not> (readyState \<lparr>readyState = 4, status = 500, statusText = ''Server Error'',
                responseText = example_response_text\<rparr> = 4
       \<and> status \<lparr>readyState = 4, status = 500, statusText = ''Server Error'',
                responseText = example_response_text\<rparr> = 200)
   \<and> refreshLCDHandler example_parse example_read_back
         \<lparr>readyState = 4, status = 500, statusText = ''Server Error'',
          responseText = example_response_text\<rparr> example_page
       = (Inr (), example_page)"
  using refreshLCDHandler_ignores_other_states
    [of "\<lparr>readyState = 4, status = 500, statusText = ''Server Error'',
          responseText = example_response_text\<rparr>" example_parse example_read_back
        example_page]
  by simp

text \<open>
  Claim C10: in ready state 4 with status 200 and an empty response text the refresh
  handler parses nothing and changes nothing: whatever \<^verbatim>\<open>JSON.parse\<close> would do, the
  handler returns normally with the state it found.
\<close>

theorem refreshLCDHandler_empty_body:
  assumes "readyState this = 4" and "status this = 200" and "responseText this = []"
  shows "refreshLCDHandler JSON_parse read_back this s = (Inr (), s)"
  using assms by (simp add: refreshLCDHandler_def)

theorem refreshLCDHandler_empty_body_witness:
  "readyState \<lparr>readyState = 4, status = 200, statusText = ''OK'', responseText = []\<rparr> = 4
   \<and> status \<lparr>readyState = 4, status = 200, statusText = ''OK'', responseText = []\<rparr> = 200
   \<and> responseText \<lparr>readyState = 4, status = 200, statusText = ''OK'', responseText = []\<rparr> = []
   \<and> refreshLCDHandler (\<lambda>t. None) example_read_back
         \<lparr>readyState = 4, status = 200, statusText = ''OK'', responseText = []\<rparr> example_page
       = (Inr (), example_page)"
  using refreshLCDHandler_empty_body
    [of "\<lparr>readyState = 4, status = 200, statusText = ''OK'', responseText = []\<rparr>"
        "\<lambda>t. None" example_read_back example_page]
  by simp

text \<open>
  Claim C7, as the code has it: when a successful refresh response parses to an object
  whose \<^verbatim>\<open>result\<close> is the string \<open>R\<close>, the handler returns normally and assigns \<open>R\<close>,
  unmodified, to \<^verbatim>\<open>innerHTML\<close> of the preview container; no other element changes. The
  content of the container afterwards is what the browser reads back for \<open>R\<close>: it is
  exactly \<open>R\<close> when the browser reads \<open>R\<close> back unchanged.
\<close>

theorem refreshLCDHandler_injects_result:
  assumes "readyState this = 4" and "status this = 200"
    and "responseText this \<noteq> []"
    and "JSON_parse (responseText this) = Some (JObj ps)"
    and "map_of ps ''result'' = Some (JStr R)"
    and "document s lcd_id = Some e"
  shows "fst (refreshLCDHandler JSON_parse read_back this s) = Inr ()
    \<and> document (snd (refreshLCDHandler JSON_parse read_back this s))
        = (document s)(lcd_id \<mapsto> e\<lparr>innerHTML := read_back R\<rparr>)
    \<and> (read_back R = R \<longrightarrow>
          document (snd (refreshLCDHandler JSON_parse read_back this s))
            = (document s)(lcd_id \<mapsto> e\<lparr>innerHTML := R\<rparr>))"
  using assms
  by (simp add: refreshLCDHandler_def getElementById_def get_member_def get_prop_def
      set_innerHTML_def)

theorem refreshLCDHandler_injects_result_witness:
  "readyState \<lparr>readyState = 4, status = 200, statusText = ''OK'',
               responseText = example_response_text\<rparr> = 4
   \<and> status \<lparr>readyState = 4, status = 200, statusText = ''OK'',
               responseText = example_response_text\<rparr> = 200
   \<and> responseText \<lparr>readyState = 4, status = 200, statusText = ''OK'',
               responseText = example_response_text\<rparr> \<noteq> []
   \<and> example_parse (responseText \<lparr>readyState = 4, status = 200, statusText = ''OK'',
               responseText = example_response_text\<rparr>)
        = Some (JObj [(''result'', JStr ''<svg>HELLO</svg>'')])
   \<and> map_of [(''result'', JStr ''<svg>HELLO</svg>'')] ''result'' = Some (JStr ''<svg>HELLO</svg>'')
   \<and> document example_page lcd_id = Some \<lparr>elem_value = None, innerHTML = ''<svg>X</svg>''\<rparr>
   \<and> example_read_back ''<svg>HELLO</svg>'' = ''<svg>HELLO</svg>''
   \<and> fst (refreshLCDHandler example_parse example_read_back
              \<lparr>readyState = 4, status = 200, statusText = ''OK'',
               responseText = example_response_text\<rparr> example_page) = Inr ()
   \<and> document (snd (refreshLCDHandler example_parse example_read_back
              \<lparr>readyState = 4, status = 200, statusText = ''OK'',
               responseText = example_response_text\<rparr> example_page))
        = (document example_page)
            (lcd_id \<mapsto> \<lparr>elem_value = None, innerHTML = ''<svg>HELLO</svg>''\<rparr>)"
proof -
  have t: "example_response_text \<noteq> []"
    by (simp add: example_response_text_def example_response_def quote_def)
  have p: "example_parse example_response_text
      = Some (JObj [(''result'', JStr ''<svg>HELLO</svg>'')])"
    by (simp add: example_parse_def example_response_def)
  have d: "document example_page lcd_id
      = Some \<lparr>elem_value = None, innerHTML = ''<svg>X</svg>''\<rparr>"
    by (simp add: example_page_def lcd_id_def)
  have b: "example_read_back ''<svg>HELLO</svg>'' = ''<svg>HELLO</svg>''"
    by (simp add: example_read_back_def)
  show ?thesis
    using t p d b refreshLCDHandler_injects_result
      [of "\<lparr>readyState = 4, status = 200, statusText = ''OK'',
            responseText = example_response_text\<rparr>" example_parse
          "[(''result'', JStr ''<svg>HELLO</svg>'')]" "''<svg>HELLO</svg>''" example_page
          "\<lparr>elem_value = None, innerHTML = ''<svg>X</svg>''\<rparr>" example_read_back]
    by simp
qed

text \<open>
  Claim C7 as stated fails: the response below is a success whose \<^verbatim>\<open>result\<close> is the
  markup \<^verbatim>\<open><svg><rect/></svg>\<close>; the handler returns normally, and the content of the
  preview container afterwards is \<^verbatim>\<open><svg><rect></rect></svg>\<close>, which is not the
  \<^verbatim>\<open>result\<close>.
\<close>

theorem refreshLCDHandler_content_differs_from_result:
  "rect_parse rect_response_text = Some (JObj [(''result'', JStr ''<svg><rect/></svg>'')])
   \<and> fst (refreshLCDHandler rect_parse example_read_back
              \<lparr>readyState = 4, status = 200, statusText = ''OK'',
               responseText = rect_response_text\<rparr> example_page) = Inr ()
   \<and> map_option innerHTML
        (document (snd (refreshLCDHandler rect_parse example_read_back
              \<lparr>readyState = 4, status = 200, statusText = ''OK'',
               responseText = rect_response_text\<rparr> example_page)) lcd_id)
        = Some ''<svg><rect></rect></svg>''
   \<and> ''<svg><rect></rect></svg>'' \<noteq> ''<svg><rect/></svg>''"
proof -
  have t: "rect_response_text \<noteq> []"
    by (simp add: rect_response_text_def rect_response_def quote_def)
  have p: "rect_parse rect_response_text
      = Some (JObj [(''result'', JStr ''<svg><rect/></svg>'')])"
    by (simp add: rect_parse_def rect_response_def)
  have d: "document example_page lcd_id
      = Some \<lparr>elem_value = None, innerHTML = ''<svg>X</svg>''\<rparr>"
    by (simp add: example_page_def lcd_id_def)
  show ?thesis
    using t p d
    by (simp add: refreshLCDHandler_def getElementById_def get_member_def get_prop_def
        set_innerHTML_def example_read_back_def)
qed

text \<open>
  What the refresh handler does when the preview container is missing: it logs the
  error, returns normally and leaves the document as it was.
\<close>

lemma refreshLCDHandler_missing_container:
  assumes "readyState this = 4" and "status this = 200"
    and "responseText this \<noteq> []"
    and "JSON_parse (responseText this) = Some response"
    and "document s lcd_id = None"
  shows "refreshLCDHandler JSON_parse read_back this s =
    (Inr (),
     s\<lparr>lcdContentElement := NullRef,
       console_errors := console_errors s @
         [''Could not find element with id '' @ [CHR 0x27] @ lcd_id @ [CHR 0x27]]\<rparr>)"
  using assms
  by (simp add: refreshLCDHandler_def getElementById_def console_error_def)

text \<open>The refresh handler throws on text that is not JSON, and on the JSON text null.\<close>

lemma refreshLCDHandler_bad_json:
  assumes "readyState this = 4" and "status this = 200"
    and "responseText this \<noteq> []"
    and "JSON_parse (responseText this) = None"
  shows "refreshLCDHandler JSON_parse read_back this s = (Inl SyntaxError, s)"
  using assms by (simp add: refreshLCDHandler_def)

text \<open>The save callback, on every call: one alert, the success one in one case only.\<close>

lemma saveScreenshotHandler_alert:
  "saveScreenshotHandler this s =
    (Inr (),
     s\<lparr>alerts := alerts s @
        [if readyState this = 4 \<and> status this = 200 then ''Screenshot saved successfully!''
         else ''Error saving screenshot '' @ show_nat (status this) @ '': ''
                @ statusText this]\<rparr>)"
  by (simp add: saveScreenshotHandler_def alert_def)

lemma saveScreenshotHandler_server_error:
  "saveScreenshotHandler
     \<lparr>readyState = 4, status = 500, statusText = ''Server Error'', responseText = []\<rparr> s
   = (Inr (), s\<lparr>alerts := alerts s @ [''Error saving screenshot 500: Server Error'']\<rparr>)"
  by (simp add: saveScreenshotHandler_def alert_def show_nat.simps)

text \<open>
  Claim C2 at the input where the code departs from it: in ready state 2 (headers
  received) of a request that is succeeding, the save callback shows an error alert.
\<close>

theorem saveScreenshotHandler_alerts_before_terminal_state:
  "saveScreenshotHandler
     \<lparr>readyState = 2, status = 200, statusText = ''OK'', responseText = []\<rparr> s
   = (Inr (), s\<lparr>alerts := alerts s @ [''Error saving screenshot 200: OK'']\<rparr>)"
  by (simp add: saveScreenshotHandler_def alert_def show_nat.simps)

theorem saveScreenshotHandler_alerts_before_terminal_state_witness:
  "alerts (snd (saveScreenshotHandler
       \<lparr>readyState = 2, status = 200, statusText = ''OK'', responseText = []\<rparr>
       example_page))
   = [''Error saving screenshot 200: OK'']"
  using saveScreenshotHandler_alerts_before_terminal_state [of example_page]
  by (simp add: example_page_def)

text \<open>The browser calls the callback that \<^verbatim>\<open>doAjax\<close> was given on every change.\<close>

lemma call_handler_save:
  "call_handler JSON_parse read_back (Some SaveScreenshotHandler) this s
     = saveScreenshotHandler this s"
  by (simp add: call_handler_def)

lemma call_handler_refresh:
  "call_handler JSON_parse read_back (Some RefreshLCDHandler) this s
     = refreshLCDHandler JSON_parse read_back this s"
  by (simp add: call_handler_def)

text \<open>\<^verbatim>\<open>saveScreenshot\<close> without the preview container: a TypeError, nothing logged.\<close>

lemma saveScreenshot_missing_container:
  "document s lcd_id = None \<Longrightarrow> saveScreenshot s = (Inl TypeError, s)"
  by (simp add: saveScreenshot_def getElementById_def)

text \<open>
  Claim C5 at the input where the code departs from it: on a page without the preview
  container \<^verbatim>\<open>saveScreenshot\<close> throws a TypeError; it logs nothing.
\<close>

theorem saveScreenshot_missing_preview_throws:
  "saveScreenshot page_without_preview = (Inl TypeError, page_without_preview)"
  by (simp add: saveScreenshot_def page_without_preview_def example_page_def
      getElementById_def lcd_id_def)

text \<open>
  Claim C9: \<^verbatim>\<open>saveScreenshot\<close> sends one POST to \<^verbatim>\<open>/save/screenshot\<close> whose body
  is the JSON text of \<^verbatim>\<open>svg-data\<close>, the preview container's content at the call, and
  the token; the text field plays no part in it.
\<close>

theorem saveScreenshot_request:
  assumes "document s lcd_id = Some e" and "getHttpRequestObject s = Some x"
  shows "fst (saveScreenshot s) = Inr ()
    \<and> requests (snd (saveScreenshot s)) = requests s @
        [\<lparr>req_transport = x, req_method = ''POST'', req_url = ''/save/screenshot'',
          req_async = True, req_headers = [(''Content-Type'', ''application/json'')],
          onreadystatechange = Some SaveScreenshotHandler,
          req_body = JSON_stringify
            (JObj [(''svg-data'', JStr (innerHTML e)), (''token'', token s)])\<rparr>]
    \<and> requests (snd (saveScreenshot (set_text v s))) = requests (snd (saveScreenshot s))"
proof -
  have sent: "fst (saveScreenshot s') = Inr ()
    \<and> requests (snd (saveScreenshot s')) = requests s' @
        [\<lparr>req_transport = x, req_method = ''POST'', req_url = ''/save/screenshot'',
          req_async = True, req_headers = [(''Content-Type'', ''application/json'')],
          onreadystatechange = Some SaveScreenshotHandler,
          req_body = JSON_stringify
            (JObj [(''svg-data'', JStr (innerHTML e)), (''token'', token s')])\<rparr>]"
    if "document s' lcd_id = Some e" and "getHttpRequestObject s' = Some x" for s'
    using that
    by (simp add: saveScreenshot_def getElementById_def new_object_def doAjax_sends discard_def
        sent_request_def data_props_def object_at_def)
  have "document (set_text v s) lcd_id = Some e"
    using assms(1) by (simp add: set_text_def lcd_id_def split: option.splits)
  moreover have "getHttpRequestObject (set_text v s) = Some x"
    using assms(2) by (simp add: set_text_def split: option.splits)
  moreover have "requests (set_text v s) = requests s" "token (set_text v s) = token s"
    by (simp_all add: set_text_def split: option.splits)
  ultimately show ?thesis
    using sent[OF assms] sent[of "set_text v s"] by simp
qed

theorem saveScreenshot_request_witness:
  \<open>document example_page lcd_id = Some \<lparr>elem_value = None, innerHTML = ''<svg>X</svg>''\<rparr>
   \<and> getHttpRequestObject example_page = Some XMLHttpRequestObject
   \<and> fst (saveScreenshot example_page) = Inr ()
   \<and> requests (snd (saveScreenshot example_page)) =
        [\<lparr>req_transport = XMLHttpRequestObject, req_method = ''POST'',
          req_url = ''/save/screenshot'', req_async = True,
          req_headers = [(''Content-Type'', ''application/json'')],
          onreadystatechange = Some SaveScreenshotHandler,
          req_body = Some ''{"svg-data":"<svg>X</svg>","token":"t"}''\<rparr>]
   \<and> requests (snd (saveScreenshot (set_text ''other text'' example_page)))
        = requests (snd (saveScreenshot example_page))\<close>
proof -
  have d: "document example_page lcd_id = Some \<lparr>elem_value = None, innerHTML = ''<svg>X</svg>''\<rparr>"
    by (simp add: example_page_def lcd_id_def)
  have x: "getHttpRequestObject example_page = Some XMLHttpRequestObject"
    by (simp add: getHttpRequestObject_def example_page_def)
  have r: "requests example_page = []" "token example_page = JStr ''t''"
    by (simp_all add: example_page_def)
  show ?thesis
    using d x saveScreenshot_request [OF d x, of "''other text''"]
    by (simp add: r quote_def escape_char_def)
qed

subsection \<open>The debounce\<close>

lemma refreshLCD_replaces_timer:
  assumes "debounce_inv s"
  shows "refreshLCD s =
    s\<lparr>timers := [(next_timer s, now s + duration, RefreshLCDTimeout)],
      next_timer := next_timer s + 1,
      refreshLCDTimer := Some (next_timer s)\<rparr>"
  using assms
  by (auto simp: debounce_inv_def refreshLCD_def setTimeout_def clearTimeout_def
      split: option.splits)

lemma refreshLCD_timeout_sends:
  assumes "document s ''text-input'' = Some e" and "elem_value e = Some v"
    and "getHttpRequestObject s = Some x"
  shows "refreshLCD_timeout s =
    (Inr (),
     s\<lparr>async := JBool True,
       heap := (heap s)(next_addr s \<mapsto>
                 [(''input-data'', JArr (map JStr (split_lines v))), (''token'', token s)]),
       next_addr := next_addr s + 1,
       requests := requests s @ [refresh_request x (token s) v]\<rparr>)"
  using assms
  by (simp add: refreshLCD_timeout_def getTextInputAsLines_def getElementById_def
      new_object_def doAjax_sends discard_def sent_request_def data_props_def object_at_def
      refresh_request_def)

text \<open>While the one pending timer is not due, time passes and nothing else happens.\<close>

lemma pending_timer_waits:
  assumes "timers s = [(i, d, RefreshLCDTimeout)]" and "now s + gap < d"
  shows "elapse gap s = s\<lparr>now := now s + gap\<rparr>"
  using assms by (simp add: elapse_def run_timers.simps)

text \<open>
  When the one pending timer comes due, its callback reads the text field as it is then
  and sends the request.
\<close>

lemma pending_timer_fires:
  assumes "timers s = [(i, d, RefreshLCDTimeout)]" and "d \<le> now s + gap"
    and "document s ''text-input'' = Some e" and "elem_value e = Some v"
    and "getHttpRequestObject s = Some x"
  shows "elapse gap s =
    s\<lparr>async := JBool True,
      heap := (heap s)(next_addr s \<mapsto>
                 [(''input-data'', JArr (map JStr (split_lines v))), (''token'', token s)]),
      next_addr := next_addr s + 1,
      requests := requests s @ [refresh_request x (token s) v],
      timers := [],
      now := now s + gap\<rparr>"
proof -
  let ?s3 = "s\<lparr>now := max (now s) d, timers := []\<rparr>"
  have "elapse gap s = run_timers (now s + gap) (fire RefreshLCDTimeout ?s3)"
    using assms(1,2) by (simp add: elapse_def run_timers.simps[of _ s])
  moreover have "refreshLCD_timeout ?s3 = (Inr (),
     ?s3\<lparr>async := JBool True,
       heap := (heap ?s3)(next_addr ?s3 \<mapsto>
                 [(''input-data'', JArr (map JStr (split_lines v))), (''token'', token ?s3)]),
       next_addr := next_addr ?s3 + 1,
       requests := requests ?s3 @ [refresh_request x (token ?s3) v]\<rparr>)"
    using assms(3-5) by (intro refreshLCD_timeout_sends[where e = e]) simp_all
  ultimately show ?thesis
    using assms(2) by (simp add: fire_def run_timers.simps max_def)
qed

lemma set_text_frame:
  "timers (set_text v s) = timers s" "refreshLCDTimer (set_text v s) = refreshLCDTimer s"
  "next_timer (set_text v s) = next_timer s" "requests (set_text v s) = requests s"
  "token (set_text v s) = token s" "now (set_text v s) = now s"
  "getHttpRequestObject (set_text v s) = getHttpRequestObject s"
  by (simp_all add: set_text_def split: option.splits)

lemma set_text_inv: "debounce_inv (set_text v s) = debounce_inv s"
  by (simp add: debounce_inv_def set_text_frame)

lemma set_text_value:
  "document s ''text-input'' = Some e \<Longrightarrow>
   document (set_text v s) ''text-input'' = Some (e\<lparr>elem_value := Some v\<rparr>)"
  by (simp add: set_text_def)

text \<open>
  A burst from any state that satisfies the invariant: the events but the last are each
  followed by less than the quiet period, the last one by at least the quiet period.
\<close>

lemma input_events_burst:
  assumes "debounce_inv s" and "document s ''text-input'' = Some e"
    and "getHttpRequestObject s = Some x"
    and "evs \<noteq> []"
    and "\<forall>gap \<in> set (map snd (butlast evs)). gap < duration"
    and "duration \<le> snd (last evs)"
  shows "requests (input_events evs s)
       = requests s @ [refresh_request x (token s) (fst (last evs))]
     \<and> timers (input_events evs s) = []"
  using assms
proof (induction evs arbitrary: s e)
  case Nil
  then show ?case by simp
next
  case (Cons ev evs)
  obtain v gap where ev: "ev = (v, gap)" by (cases ev)
  let ?s1 = "set_text v s"
  let ?r = "?s1\<lparr>timers := [(next_timer ?s1, now ?s1 + duration, RefreshLCDTimeout)],
      next_timer := next_timer ?s1 + 1, refreshLCDTimer := Some (next_timer ?s1)\<rparr>"
  have inv1: "debounce_inv ?s1" using Cons.prems(1) by (simp add: set_text_inv)
  have doc1: "document ?s1 ''text-input'' = Some (e\<lparr>elem_value := Some v\<rparr>)"
    using Cons.prems(2) by (rule set_text_value)
  have x1: "getHttpRequestObject ?s1 = Some x"
    using Cons.prems(3) by (simp add: set_text_frame)
  have r: "refreshLCD ?s1 = ?r"
    using inv1 by (rule refreshLCD_replaces_timer)
  show ?case
  proof (cases "evs = []")
    case True
    then have quiet: "duration \<le> gap" using Cons.prems(6) ev by simp
    have "elapse gap ?r = ?r\<lparr>async := JBool True,
      heap := (heap ?r)(next_addr ?r \<mapsto>
                 [(''input-data'', JArr (map JStr (split_lines v))), (''token'', token ?r)]),
      next_addr := next_addr ?r + 1,
      requests := requests ?r @ [refresh_request x (token ?r) v],
      timers := [],
      now := now ?r + gap\<rparr>"
    proof (rule pending_timer_fires)
      show "timers ?r = [(next_timer ?s1, now ?s1 + duration, RefreshLCDTimeout)]"
        by simp
      show "now ?s1 + duration \<le> now ?r + gap"
        using quiet by simp
      show "document ?r ''text-input'' = Some (e\<lparr>elem_value := Some v\<rparr>)"
        using doc1 by simp
      show "elem_value (e\<lparr>elem_value := Some v\<rparr>) = Some v"
        by simp
      show "getHttpRequestObject ?r = Some x"
        using x1 by simp
    qed
    then show ?thesis
      using True ev by (simp add: r set_text_frame)
  next
    case False
    then have gap: "gap < duration" using Cons.prems(5) ev by simp
    let ?s2 = "?r\<lparr>now := now ?r + gap\<rparr>"
    have s2: "elapse gap ?r = ?s2"
    proof (rule pending_timer_waits)
      show "timers ?r = [(next_timer ?s1, now ?s1 + duration, RefreshLCDTimeout)]"
        by simp
      show "now ?r + gap < now ?s1 + duration"
        using gap by simp
    qed
    have inv2: "debounce_inv ?s2"
      using inv1 by (simp add: debounce_inv_def)
    have doc2: "document ?s2 ''text-input'' = Some (e\<lparr>elem_value := Some v\<rparr>)"
      using doc1 by simp
    have x2: "getHttpRequestObject ?s2 = Some x"
      using x1 by simp
    have frame: "requests ?s2 = requests s" "token ?s2 = token s"
      by (simp_all add: set_text_frame)
    have "requests (input_events evs ?s2)
         = requests ?s2 @ [refresh_request x (token ?s2) (fst (last evs))]
       \<and> timers (input_events evs ?s2) = []"
      using Cons.prems(5,6) False
      by (intro Cons.IH[OF inv2 doc2 x2]) simp_all
    moreover have "input_events (ev # evs) s = input_events evs ?s2"
      by (simp only: ev input_events.simps r s2)
    moreover have "fst (last (ev # evs)) = fst (last evs)"
      using False by simp
    ultimately show ?thesis
      by (simp only: frame)
  qed
qed

text \<open>
  Claim C1: a burst of input-change events, each but the last followed by its successor
  within less than the quiet period of 500 ms, and the last followed by the quiet period,
  issues exactly one request to \<^verbatim>\<open>/refresh/lcd\<close>; its \<^verbatim>\<open>input-data\<close> is the
  line split of the text as the last event of the burst left it. No timer is left pending.
\<close>

theorem refresh_burst_sends_one_request:
  assumes "timers s = []" and "next_timer s \<noteq> 0"
    and "document s ''text-input'' = Some e"
    and "getHttpRequestObject s = Some x"
    and "evs \<noteq> []"
    and "\<forall>gap \<in> set (map snd (butlast evs)). gap < duration"
    and "duration \<le> snd (last evs)"
  shows "requests (input_events evs s)
       = requests s @ [refresh_request x (token s) (fst (last evs))]
     \<and> timers (input_events evs s) = []"
proof -
  have "debounce_inv s"
    using assms(1,2) by (simp add: debounce_inv_def)
  then show ?thesis
    using assms(3-7) by (rule input_events_burst)
qed

theorem refresh_burst_sends_one_request_witness:
  \<open>timers example_page = [] \<and> next_timer example_page \<noteq> 0
   \<and> document example_page ''text-input'' = Some \<lparr>elem_value = Some ''HELLO'', innerHTML = []\<rparr>
   \<and> getHttpRequestObject example_page = Some XMLHttpRequestObject
   \<and> [(''HELL'', 100), (''HELLO'', 500)] \<noteq> ([] :: (string \<times> nat) list)
   \<and> map snd (butlast [(''HELL'', 100), (''HELLO'', 500 :: nat)]) = [100]
   \<and> 100 < duration
   \<and> duration \<le> snd (last [(''HELL'', 100), (''HELLO'', 500 :: nat)])
   \<and> requests (input_events [(''HELL'', 100), (''HELLO'', 500)] example_page) =
        [\<lparr>req_transport = XMLHttpRequestObject, req_method = ''POST'',
          req_url = ''/refresh/lcd'', req_async = True,
          req_headers = [(''Content-Type'', ''application/json'')],
          onreadystatechange = Some RefreshLCDHandler,
          req_body = Some ''{"input-data":["HELLO"],"token":"t"}''\<rparr>]
   \<and> timers (input_events [(''HELL'', 100), (''HELLO'', 500)] example_page) = []\<close>
proof -
  have h: "timers example_page = []" "next_timer example_page \<noteq> 0"
    "document example_page ''text-input'' = Some \<lparr>elem_value = Some ''HELLO'', innerHTML = []\<rparr>"
    "getHttpRequestObject example_page = Some XMLHttpRequestObject"
    by (simp_all add: example_page_def getHttpRequestObject_def)
  have g: "[(''HELL'', 100), (''HELLO'', 500)] \<noteq> ([] :: (string \<times> nat) list)"
    "\<forall>gap \<in> set (map snd (butlast [(''HELL'', 100), (''HELLO'', 500 :: nat)])). gap < duration"
    "duration \<le> snd (last [(''HELL'', 100), (''HELLO'', 500 :: nat)])"
    by (simp_all add: duration_def)
  have r: "requests example_page = []" "token example_page = JStr ''t''"
    by (simp_all add: example_page_def)
  show ?thesis
    using h g refresh_burst_sends_one_request [OF h g]
    by (simp add: r refresh_request_def quote_def escape_char_def duration_def)
qed

text \<open>
  The text is read when the timer fires, not when the event occurs: an edit that reaches
  the field without an event, after the last call of \<^verbatim>\<open>refreshLCD\<close>, is what is sent.
\<close>

lemma refresh_reads_text_when_firing:
  assumes "debounce_inv s" and "document s ''text-input'' = Some e"
    and "getHttpRequestObject s = Some x" and "duration \<le> gap"
  shows "requests (elapse gap (set_text w (refreshLCD (set_text v s))))
       = requests s @ [refresh_request x (token s) w]"
proof -
  let ?s1 = "set_text v s"
  let ?r = "?s1\<lparr>timers := [(next_timer ?s1, now ?s1 + duration, RefreshLCDTimeout)],
      next_timer := next_timer ?s1 + 1, refreshLCDTimer := Some (next_timer ?s1)\<rparr>"
  let ?s2 = "set_text w ?r"
  have r: "refreshLCD ?s1 = ?r"
    using assms(1) by (intro refreshLCD_replaces_timer) (simp add: set_text_inv)
  have "document ?r ''text-input'' = Some (e\<lparr>elem_value := Some v\<rparr>)"
    using set_text_value[OF assms(2), of v] by simp
  then have doc: "document ?s2 ''text-input'' = Some (e\<lparr>elem_value := Some v, elem_value := Some w\<rparr>)"
    by (rule set_text_value)
  have "elapse gap ?s2 = ?s2\<lparr>async := JBool True,
      heap := (heap ?s2)(next_addr ?s2 \<mapsto>
                 [(''input-data'', JArr (map JStr (split_lines w))), (''token'', token ?s2)]),
      next_addr := next_addr ?s2 + 1,
      requests := requests ?s2 @ [refresh_request x (token ?s2) w],
      timers := [],
      now := now ?s2 + gap\<rparr>"
  proof (rule pending_timer_fires)
    show "timers ?s2 = [(next_timer s, now s + duration, RefreshLCDTimeout)]"
      by (simp add: set_text_frame)
    show "now s + duration \<le> now ?s2 + gap"
      using assms(4) by (simp add: set_text_frame)
    show "document ?s2 ''text-input''
        = Some (e\<lparr>elem_value := Some v, elem_value := Some w\<rparr>)"
      by (rule doc)
    show "elem_value (e\<lparr>elem_value := Some v, elem_value := Some w\<rparr>) = Some w"
      by simp
    show "getHttpRequestObject ?s2 = Some x"
      using assms(3) by (simp add: set_text_frame)
  qed
  then show ?thesis
    by (simp add: r set_text_frame)
qed

text \<open>
  Without the text field the timer's callback throws and no request is sent; the error
  is reported by the event loop.
\<close>

lemma refresh_without_text_input:
  assumes "debounce_inv s" and "document s ''text-input'' = None" and "duration \<le> gap"
  shows "requests (elapse gap (refreshLCD s)) = requests s
    \<and> uncaught (elapse gap (refreshLCD s)) = uncaught s @ [TypeError]"
  using assms
  by (simp add: refreshLCD_replaces_timer elapse_def run_timers.simps fire_def
      refreshLCD_timeout_def getTextInputAsLines_def getElementById_def)

end
